theory Spec2Isabelle
  imports Main "HOL-Library.AList" "HOL-Library.Log_Nat"
begin

section \<open>JavaScript values and objects\<close>

text \<open>
  The values that flow through the server: JSON values of a request body, and
  \<open>Date\<close> objects (a time in milliseconds since the epoch) made by \<open>new Date()\<close> or
  read from a \<open>TIMESTAMP\<close> column. Numbers are integers here: identifiers, counts and
  times; the only non-integral arithmetic of the server is in the statistics route
  and is modelled apart (section Numbers).
\<close>

datatype jsval =
    JNull
  | JBool bool
  | JNum int
  | JStr string
  | JDate int
  | JArr "jsval list"
  | JObj "(string \<times> jsval) list"

text \<open>
  An object is a finite map from its keys to values. A key that is absent reads as
  \<open>undefined\<close>, which is \<open>None\<close>; JSON has no \<open>undefined\<close>, so no key of a request
  body holds it. The spread \<open>{...a, ...b, k: v}\<close> is \<open>(a ++ b)(k \<mapsto> v)\<close>.
\<close>

type_synonym obj = "string \<rightharpoonup> jsval"

fun js_truthy :: "jsval \<Rightarrow> bool" where
  "js_truthy JNull = False"
| "js_truthy (JBool b) = b"
| "js_truthy (JNum n) = (n \<noteq> 0)"
| "js_truthy (JStr s) = (s \<noteq> [])"
| "js_truthy (JDate t) = True"
| "js_truthy (JArr xs) = True"
| "js_truthy (JObj kvs) = True"

text \<open>\<open>a || d\<close>, for a property read \<open>a\<close> and a default \<open>d\<close>.\<close>

fun js_or :: "jsval option \<Rightarrow> jsval \<Rightarrow> jsval" where
  "js_or None d = d"
| "js_or (Some v) d = (if js_truthy v then v else d)"

text \<open>
  What a thrown exception carries: \<open>new Error(message)\<close> of the stores, or a rejection
  of a statement by the database.
\<close>

datatype error = Error string | DatabaseError string

section \<open>MemStorage\<close>

text \<open>
  A \<open>Map<number, T>\<close> is an association list in insertion order: \<open>set\<close> is
  \<open>AList.update\<close> (an existing key keeps its place, a new key goes last), \<open>delete\<close>
  is \<open>AList.delete\<close>, \<open>get\<close> is \<open>map_of\<close>, \<open>values()\<close> is \<open>map snd\<close>.
  The current time \<open>new Date()\<close> is the argument \<open>now\<close> of each operation.
\<close>

record MemStorage =
  users :: "(int \<times> obj) list"
  jobApplications :: "(int \<times> obj) list"
  documents :: "(int \<times> obj) list"
  interviews :: "(int \<times> obj) list"
  userId :: int
  jobApplicationId :: int
  documentId :: int
  interviewId :: int

definition Mem_constructor :: MemStorage where
  "Mem_constructor =
     \<lparr>users = [], jobApplications = [], documents = [], interviews = [],
      userId = 1, jobApplicationId = 1, documentId = 1, interviewId = 1\<rparr>"

definition Mem_getUser :: "MemStorage \<Rightarrow> int \<Rightarrow> obj option" where
  "Mem_getUser s i = map_of (users s) i"

definition Mem_createUser :: "MemStorage \<Rightarrow> int \<Rightarrow> obj \<Rightarrow> obj \<times> MemStorage" where
  "Mem_createUser s now insertUser =
     (let i = userId s;
          user = insertUser
            (''id'' \<mapsto> JNum i,
             ''createdAt'' \<mapsto> JDate now,
             ''fullName'' \<mapsto> js_or (insertUser ''fullName'') JNull,
             ''email'' \<mapsto> js_or (insertUser ''email'') JNull,
             ''skills'' \<mapsto> js_or (insertUser ''skills'') JNull)
      in (user, s\<lparr>userId := i + 1, users := AList.update i user (users s)\<rparr>))"

subsection \<open>Job applications\<close>

definition Mem_getJobApplicationsByUserId :: "MemStorage \<Rightarrow> int \<Rightarrow> obj list" where
  "Mem_getJobApplicationsByUserId s uid =
     filter (\<lambda>application. application ''userId'' = Some (JNum uid))
       (map snd (jobApplications s))"

definition Mem_getJobApplicationById :: "MemStorage \<Rightarrow> int \<Rightarrow> obj option" where
  "Mem_getJobApplicationById s i = map_of (jobApplications s) i"

definition Mem_createJobApplication :: "MemStorage \<Rightarrow> int \<Rightarrow> obj \<Rightarrow> obj \<times> MemStorage" where
  "Mem_createJobApplication s now application =
     (let i = jobApplicationId s;
          newApplication = application
            (''id'' \<mapsto> JNum i,
             ''url'' \<mapsto> js_or (application ''url'') JNull,
             ''location'' \<mapsto> js_or (application ''location'') JNull,
             ''salary'' \<mapsto> js_or (application ''salary'') JNull,
             ''jobType'' \<mapsto> js_or (application ''jobType'') JNull,
             ''workMode'' \<mapsto> js_or (application ''workMode'') JNull,
             ''description'' \<mapsto> js_or (application ''description'') JNull,
             ''notes'' \<mapsto> js_or (application ''notes'') JNull,
             ''contactInfo'' \<mapsto> js_or (application ''contactInfo'') JNull,
             ''appliedDate'' \<mapsto> js_or (application ''appliedDate'') (JDate now),
             ''updatedAt'' \<mapsto> JDate now)
      in (newApplication,
          s\<lparr>jobApplicationId := i + 1,
            jobApplications := AList.update i newApplication (jobApplications s)\<rparr>))"

definition Mem_updateJobApplication ::
  "MemStorage \<Rightarrow> int \<Rightarrow> int \<Rightarrow> obj \<Rightarrow> error + obj \<times> MemStorage" where
  "Mem_updateJobApplication s now i update =
     (case map_of (jobApplications s) i of
        None \<Rightarrow> Inl (Error ''Job application not found'')
      | Some application \<Rightarrow>
          (let updatedApplication = (application ++ update)(''updatedAt'' \<mapsto> JDate now)
           in Inr (updatedApplication,
                   s\<lparr>jobApplications :=
                        AList.update i updatedApplication (jobApplications s)\<rparr>)))"

definition Mem_deleteJobApplication :: "MemStorage \<Rightarrow> int \<Rightarrow> MemStorage" where
  "Mem_deleteJobApplication s i = s\<lparr>jobApplications := AList.delete i (jobApplications s)\<rparr>"

subsection \<open>Documents\<close>

definition Mem_getDocumentsByUserId :: "MemStorage \<Rightarrow> int \<Rightarrow> obj list" where
  "Mem_getDocumentsByUserId s uid =
     filter (\<lambda>document. document ''userId'' = Some (JNum uid)) (map snd (documents s))"

definition Mem_getDocumentById :: "MemStorage \<Rightarrow> int \<Rightarrow> obj option" where
  "Mem_getDocumentById s i = map_of (documents s) i"

definition Mem_createDocument :: "MemStorage \<Rightarrow> int \<Rightarrow> obj \<Rightarrow> obj \<times> MemStorage" where
  "Mem_createDocument s now document =
     (let i = documentId s;
          newDocument = document
            (''id'' \<mapsto> JNum i,
             ''usageCount'' \<mapsto> JNum 0,
             ''createdAt'' \<mapsto> JDate now,
             ''updatedAt'' \<mapsto> JDate now)
      in (newDocument,
          s\<lparr>documentId := i + 1, documents := AList.update i newDocument (documents s)\<rparr>))"

definition Mem_updateDocument ::
  "MemStorage \<Rightarrow> int \<Rightarrow> int \<Rightarrow> obj \<Rightarrow> error + obj \<times> MemStorage" where
  "Mem_updateDocument s now i update =
     (case map_of (documents s) i of
        None \<Rightarrow> Inl (Error ''Document not found'')
      | Some document \<Rightarrow>
          (let updatedDocument = (document ++ update)(''updatedAt'' \<mapsto> JDate now)
           in Inr (updatedDocument,
                   s\<lparr>documents := AList.update i updatedDocument (documents s)\<rparr>)))"

definition Mem_deleteDocument :: "MemStorage \<Rightarrow> int \<Rightarrow> MemStorage" where
  "Mem_deleteDocument s i = s\<lparr>documents := AList.delete i (documents s)\<rparr>"

subsection \<open>Interviews\<close>

definition Mem_getInterviewsByUserId :: "MemStorage \<Rightarrow> int \<Rightarrow> obj list" where
  "Mem_getInterviewsByUserId s uid =
     filter (\<lambda>interview. interview ''userId'' = Some (JNum uid)) (map snd (interviews s))"

definition Mem_getInterviewById :: "MemStorage \<Rightarrow> int \<Rightarrow> obj option" where
  "Mem_getInterviewById s i = map_of (interviews s) i"

definition Mem_createInterview :: "MemStorage \<Rightarrow> obj \<Rightarrow> obj \<times> MemStorage" where
  "Mem_createInterview s interview =
     (let i = interviewId s;
          newInterview = interview(''id'' \<mapsto> JNum i)
      in (newInterview,
          s\<lparr>interviewId := i + 1, interviews := AList.update i newInterview (interviews s)\<rparr>))"

definition Mem_updateInterview :: "MemStorage \<Rightarrow> int \<Rightarrow> obj \<Rightarrow> error + obj \<times> MemStorage" where
  "Mem_updateInterview s i update =
     (case map_of (interviews s) i of
        None \<Rightarrow> Inl (Error ''Interview not found'')
      | Some interview \<Rightarrow>
          (let updatedInterview = interview ++ update
           in Inr (updatedInterview,
                   s\<lparr>interviews := AList.update i updatedInterview (interviews s)\<rparr>)))"

definition Mem_deleteInterview :: "MemStorage \<Rightarrow> int \<Rightarrow> MemStorage" where
  "Mem_deleteInterview s i = s\<lparr>interviews := AList.delete i (interviews s)\<rparr>"

section \<open>PostgresStorage\<close>

text \<open>
  The database as the statements of \<open>initTables\<close> declare it: four tables, each a list
  of rows keyed by its \<open>SERIAL PRIMARY KEY\<close>, and the four sequences behind the
  \<open>SERIAL\<close> columns. A row is an object whose keys are the column names; SQL \<open>NULL\<close>
  is \<open>JNull\<close>. Of the declared constraints the model checks \<open>PRIMARY KEY\<close>,
  \<open>NOT NULL\<close>, \<open>UNIQUE\<close> and \<open>REFERENCES\<close> (with \<open>ON DELETE CASCADE\<close>); a
  rejected statement is a \<open>DatabaseError\<close>, and a rejected \<open>INSERT\<close> has still
  advanced the sequence, as \<open>nextval\<close> does. Parameters are stored as they are
  given: the conversions and length limits of the column types are outside the
  model, so it speaks for parameters that have the type of their column. The
  order in which a \<open>SELECT\<close> without \<open>ORDER BY\<close> returns rows is the list order
  here; nothing below depends on it. \<open>CURRENT_TIMESTAMP\<close> is the \<open>now\<close> of the
  operation.
\<close>

record PostgresStorage =
  tbl_users :: "(int \<times> obj) list"
  tbl_job_applications :: "(int \<times> obj) list"
  tbl_documents :: "(int \<times> obj) list"
  tbl_interviews :: "(int \<times> obj) list"
  users_id_seq :: int
  job_applications_id_seq :: int
  documents_id_seq :: int
  interviews_id_seq :: int

definition initTables :: PostgresStorage where
  "initTables =
     \<lparr>tbl_users = [], tbl_job_applications = [], tbl_documents = [], tbl_interviews = [],
      users_id_seq = 1, job_applications_id_seq = 1, documents_id_seq = 1,
      interviews_id_seq = 1\<rparr>"

text \<open>A query parameter: the driver sends \<open>undefined\<close> as \<open>NULL\<close>.\<close>

fun param :: "jsval option \<Rightarrow> jsval" where
  "param None = JNull"
| "param (Some v) = v"

text \<open>\<open>row.c\<close> for a column \<open>c\<close> of a fetched row.\<close>

definition col :: "obj \<Rightarrow> string \<Rightarrow> jsval" where
  "col row c = param (row c)"

text \<open>\<open>REFERENCES t(id)\<close>: \<open>NULL\<close>, or the key of a row of \<open>t\<close>.\<close>

fun references :: "(int \<times> obj) list \<Rightarrow> jsval \<Rightarrow> bool" where
  "references t JNull = True"
| "references t (JNum i) = (map_of t i \<noteq> None)"
| "references t v = False"

text \<open>
  The \<open>SET\<close> clause an update method builds: one assignment for each listed field
  that the update object holds (\<open>update.f !== undefined\<close>; \<open>null\<close> counts), as
  pairs of column and value. The list pairs each field with its column, in the
  order of the method's tests.
\<close>

fun setFields :: "(string \<times> string) list \<Rightarrow> obj \<Rightarrow> (string \<times> jsval) list" where
  "setFields [] update = []"
| "setFields ((field, column) # rest) update =
     (case update field of
        None \<Rightarrow> setFields rest update
      | Some v \<Rightarrow> (column, v) # setFields rest update)"

text \<open>\<open>UPDATE t SET ... WHERE id = i\<close> on the one row it matches.\<close>

definition sql_set :: "obj \<Rightarrow> (string \<times> jsval) list \<Rightarrow> obj" where
  "sql_set row assignments = row ++ map_of assignments"

subsection \<open>Users\<close>

definition User_of_row :: "obj \<Rightarrow> obj" where
  "User_of_row user =
     [''id'' \<mapsto> col user ''id'',
      ''username'' \<mapsto> col user ''username'',
      ''password'' \<mapsto> col user ''password'',
      ''fullName'' \<mapsto> col user ''full_name'',
      ''email'' \<mapsto> col user ''email'',
      ''skills'' \<mapsto> col user ''skills'',
      ''createdAt'' \<mapsto> col user ''created_at'']"

definition Pg_getUser :: "PostgresStorage \<Rightarrow> int \<Rightarrow> obj option" where
  "Pg_getUser s i = map_option User_of_row (map_of (tbl_users s) i)"

definition users_ok :: "PostgresStorage \<Rightarrow> obj \<Rightarrow> bool" where
  "users_ok s row \<longleftrightarrow>
     col row ''username'' \<noteq> JNull \<and> col row ''password'' \<noteq> JNull \<and>
     \<not> list_ex (\<lambda>r. col r ''username'' = col row ''username'') (map snd (tbl_users s))"

definition Pg_createUser ::
  "PostgresStorage \<Rightarrow> int \<Rightarrow> obj \<Rightarrow> (error + obj) \<times> PostgresStorage" where
  "Pg_createUser s now user =
     (let i = users_id_seq s;
          s1 = s\<lparr>users_id_seq := i + 1\<rparr>;
          row = [''id'' \<mapsto> JNum i,
                 ''username'' \<mapsto> param (user ''username''),
                 ''password'' \<mapsto> param (user ''password''),
                 ''full_name'' \<mapsto> param (user ''fullName''),
                 ''email'' \<mapsto> param (user ''email''),
                 ''skills'' \<mapsto> param (user ''skills''),
                 ''created_at'' \<mapsto> JDate now]
      in if users_ok s row \<and> map_of (tbl_users s) i = None
         then (Inr (User_of_row row), s1\<lparr>tbl_users := tbl_users s @ [(i, row)]\<rparr>)
         else (Inl (DatabaseError ''users''), s1))"

subsection \<open>Job applications\<close>

text \<open>
  The object the methods \<open>getJobApplicationById\<close>, \<open>createJobApplication\<close> and
  \<open>updateJobApplication\<close> build from a row. It has no \<open>notes\<close>; only the object of
  \<open>getJobApplicationsByUserId\<close> has.
\<close>

definition JobApplication_of_row :: "obj \<Rightarrow> obj" where
  "JobApplication_of_row row =
     [''id'' \<mapsto> col row ''id'',
      ''userId'' \<mapsto> col row ''user_id'',
      ''company'' \<mapsto> col row ''company'',
      ''position'' \<mapsto> col row ''position'',
      ''location'' \<mapsto> col row ''location'',
      ''salary'' \<mapsto> col row ''salary'',
      ''jobType'' \<mapsto> col row ''job_type'',
      ''workMode'' \<mapsto> col row ''work_mode'',
      ''description'' \<mapsto> col row ''description'',
      ''url'' \<mapsto> col row ''url'',
      ''status'' \<mapsto> col row ''status'',
      ''resumeId'' \<mapsto> col row ''resume_id'',
      ''coverId'' \<mapsto> col row ''cover_id'',
      ''contactInfo'' \<mapsto> col row ''contact_info'',
      ''appliedDate'' \<mapsto> col row ''applied_date'',
      ''updatedAt'' \<mapsto> col row ''updated_at'']"

definition JobApplication_of_row_listed :: "obj \<Rightarrow> obj" where
  "JobApplication_of_row_listed row = (JobApplication_of_row row)(''notes'' \<mapsto> col row ''notes'')"

definition Pg_getJobApplicationsByUserId :: "PostgresStorage \<Rightarrow> int \<Rightarrow> obj list" where
  "Pg_getJobApplicationsByUserId s uid =
     map JobApplication_of_row_listed
       (filter (\<lambda>row. col row ''user_id'' = JNum uid) (map snd (tbl_job_applications s)))"

definition Pg_getJobApplicationById :: "PostgresStorage \<Rightarrow> int \<Rightarrow> obj option" where
  "Pg_getJobApplicationById s i =
     map_option JobApplication_of_row (map_of (tbl_job_applications s) i)"

definition job_applications_ok :: "PostgresStorage \<Rightarrow> obj \<Rightarrow> bool" where
  "job_applications_ok s row \<longleftrightarrow>
     col row ''company'' \<noteq> JNull \<and> col row ''position'' \<noteq> JNull \<and>
     references (tbl_users s) (col row ''user_id'')"

definition Pg_createJobApplication ::
  "PostgresStorage \<Rightarrow> int \<Rightarrow> obj \<Rightarrow> (error + obj) \<times> PostgresStorage" where
  "Pg_createJobApplication s now application =
     (let i = job_applications_id_seq s;
          s1 = s\<lparr>job_applications_id_seq := i + 1\<rparr>;
          row = [''id'' \<mapsto> JNum i,
                 ''user_id'' \<mapsto> param (application ''userId''),
                 ''company'' \<mapsto> param (application ''company''),
                 ''position'' \<mapsto> param (application ''position''),
                 ''location'' \<mapsto> param (application ''location''),
                 ''salary'' \<mapsto> param (application ''salary''),
                 ''job_type'' \<mapsto> param (application ''jobType''),
                 ''work_mode'' \<mapsto> param (application ''workMode''),
                 ''description'' \<mapsto> param (application ''description''),
                 ''notes'' \<mapsto> JNull,
                 ''url'' \<mapsto> param (application ''url''),
                 ''status'' \<mapsto> js_or (application ''status'') (JStr ''applied''),
                 ''resume_id'' \<mapsto> param (application ''resumeId''),
                 ''cover_id'' \<mapsto> param (application ''coverId''),
                 ''contact_info'' \<mapsto> param (application ''contactInfo''),
                 ''applied_date'' \<mapsto> js_or (application ''appliedDate'') (JDate now),
                 ''updated_at'' \<mapsto> JDate now]
      in if job_applications_ok s row \<and> map_of (tbl_job_applications s) i = None
         then (Inr (JobApplication_of_row row),
               s1\<lparr>tbl_job_applications := tbl_job_applications s @ [(i, row)]\<rparr>)
         else (Inl (DatabaseError ''job_applications''), s1))"

definition JobApplication_columns :: "(string \<times> string) list" where
  "JobApplication_columns =
     [(''company'', ''company''), (''position'', ''position''), (''location'', ''location''),
      (''salary'', ''salary''), (''jobType'', ''job_type''), (''workMode'', ''work_mode''),
      (''description'', ''description''), (''url'', ''url''), (''status'', ''status''),
      (''resumeId'', ''resume_id''), (''coverId'', ''cover_id''),
      (''contactInfo'', ''contact_info''), (''appliedDate'', ''applied_date'')]"

definition Pg_updateJobApplication ::
  "PostgresStorage \<Rightarrow> int \<Rightarrow> int \<Rightarrow> obj \<Rightarrow> (error + obj) \<times> PostgresStorage" where
  "Pg_updateJobApplication s now i update =
     (case map_of (tbl_job_applications s) i of
        None \<Rightarrow> (Inl (Error ''Job application not found''), s)
      | Some current \<Rightarrow>
          (let row = sql_set current
                 (setFields JobApplication_columns update @ [(''updated_at'', JDate now)])
           in if job_applications_ok s row
              then (Inr (JobApplication_of_row row),
                    s\<lparr>tbl_job_applications := AList.update i row (tbl_job_applications s)\<rparr>)
              else (Inl (DatabaseError ''job_applications''), s)))"

text \<open>
  \<open>DELETE FROM job_applications WHERE id = i\<close>: the row goes, and with it every
  interview whose \<open>job_application_id\<close> references it (\<open>ON DELETE CASCADE\<close>). A
  statement that matches no row deletes nothing.
\<close>

definition Pg_deleteJobApplication :: "PostgresStorage \<Rightarrow> int \<Rightarrow> PostgresStorage" where
  "Pg_deleteJobApplication s i =
     (if map_of (tbl_job_applications s) i = None then s
      else s\<lparr>tbl_job_applications := AList.delete i (tbl_job_applications s),
             tbl_interviews :=
               filter (\<lambda>(k, row). col row ''job_application_id'' \<noteq> JNum i) (tbl_interviews s)\<rparr>)"

subsection \<open>Documents\<close>

definition Document_of_row :: "obj \<Rightarrow> obj" where
  "Document_of_row row =
     [''id'' \<mapsto> col row ''id'',
      ''userId'' \<mapsto> col row ''user_id'',
      ''name'' \<mapsto> col row ''name'',
      ''type'' \<mapsto> col row ''type'',
      ''description'' \<mapsto> col row ''description'',
      ''content'' \<mapsto> col row ''content'',
      ''usageCount'' \<mapsto> col row ''usage_count'',
      ''createdAt'' \<mapsto> col row ''created_at'',
      ''updatedAt'' \<mapsto> col row ''updated_at'']"

definition Pg_getDocumentsByUserId :: "PostgresStorage \<Rightarrow> int \<Rightarrow> obj list" where
  "Pg_getDocumentsByUserId s uid =
     map Document_of_row
       (filter (\<lambda>row. col row ''user_id'' = JNum uid) (map snd (tbl_documents s)))"

definition Pg_getDocumentById :: "PostgresStorage \<Rightarrow> int \<Rightarrow> obj option" where
  "Pg_getDocumentById s i = map_option Document_of_row (map_of (tbl_documents s) i)"

definition documents_ok :: "PostgresStorage \<Rightarrow> obj \<Rightarrow> bool" where
  "documents_ok s row \<longleftrightarrow>
     col row ''name'' \<noteq> JNull \<and> col row ''type'' \<noteq> JNull \<and> col row ''content'' \<noteq> JNull \<and>
     references (tbl_users s) (col row ''user_id'')"

definition Pg_createDocument ::
  "PostgresStorage \<Rightarrow> int \<Rightarrow> obj \<Rightarrow> (error + obj) \<times> PostgresStorage" where
  "Pg_createDocument s now document =
     (let i = documents_id_seq s;
          s1 = s\<lparr>documents_id_seq := i + 1\<rparr>;
          row = [''id'' \<mapsto> JNum i,
                 ''user_id'' \<mapsto> param (document ''userId''),
                 ''name'' \<mapsto> param (document ''name''),
                 ''type'' \<mapsto> param (document ''type''),
                 ''description'' \<mapsto> param (document ''description''),
                 ''content'' \<mapsto> param (document ''content''),
                 ''usage_count'' \<mapsto> JNum 0,
                 ''created_at'' \<mapsto> JDate now,
                 ''updated_at'' \<mapsto> JDate now]
      in if documents_ok s row \<and> map_of (tbl_documents s) i = None
         then (Inr (Document_of_row row), s1\<lparr>tbl_documents := tbl_documents s @ [(i, row)]\<rparr>)
         else (Inl (DatabaseError ''documents''), s1))"

definition Document_columns :: "(string \<times> string) list" where
  "Document_columns =
     [(''name'', ''name''), (''type'', ''type''), (''description'', ''description''),
      (''content'', ''content''), (''usageCount'', ''usage_count'')]"

definition Pg_updateDocument ::
  "PostgresStorage \<Rightarrow> int \<Rightarrow> int \<Rightarrow> obj \<Rightarrow> (error + obj) \<times> PostgresStorage" where
  "Pg_updateDocument s now i update =
     (case map_of (tbl_documents s) i of
        None \<Rightarrow> (Inl (Error ''Document not found''), s)
      | Some current \<Rightarrow>
          (let row = sql_set current
                 (setFields Document_columns update @ [(''updated_at'', JDate now)])
           in if documents_ok s row
              then (Inr (Document_of_row row),
                    s\<lparr>tbl_documents := AList.update i row (tbl_documents s)\<rparr>)
              else (Inl (DatabaseError ''documents''), s)))"

definition Pg_deleteDocument :: "PostgresStorage \<Rightarrow> int \<Rightarrow> PostgresStorage" where
  "Pg_deleteDocument s i = s\<lparr>tbl_documents := AList.delete i (tbl_documents s)\<rparr>"

subsection \<open>Interviews\<close>

definition Interview_of_row :: "obj \<Rightarrow> obj" where
  "Interview_of_row row =
     [''id'' \<mapsto> col row ''id'',
      ''userId'' \<mapsto> col row ''user_id'',
      ''jobApplicationId'' \<mapsto> col row ''job_application_id'',
      ''title'' \<mapsto> col row ''title'',
      ''date'' \<mapsto> col row ''date'',
      ''notes'' \<mapsto> col row ''notes'',
      ''completed'' \<mapsto> col row ''completed'',
      ''feedback'' \<mapsto> col row ''feedback'']"

definition Pg_getInterviewsByUserId :: "PostgresStorage \<Rightarrow> int \<Rightarrow> obj list" where
  "Pg_getInterviewsByUserId s uid =
     map Interview_of_row
       (filter (\<lambda>row. col row ''user_id'' = JNum uid) (map snd (tbl_interviews s)))"

definition Pg_getInterviewById :: "PostgresStorage \<Rightarrow> int \<Rightarrow> obj option" where
  "Pg_getInterviewById s i = map_option Interview_of_row (map_of (tbl_interviews s) i)"

definition interviews_ok :: "PostgresStorage \<Rightarrow> obj \<Rightarrow> bool" where
  "interviews_ok s row \<longleftrightarrow>
     col row ''title'' \<noteq> JNull \<and> col row ''date'' \<noteq> JNull \<and>
     references (tbl_users s) (col row ''user_id'') \<and>
     references (tbl_job_applications s) (col row ''job_application_id'')"

definition Pg_createInterview ::
  "PostgresStorage \<Rightarrow> obj \<Rightarrow> (error + obj) \<times> PostgresStorage" where
  "Pg_createInterview s interview =
     (let i = interviews_id_seq s;
          s1 = s\<lparr>interviews_id_seq := i + 1\<rparr>;
          row = [''id'' \<mapsto> JNum i,
                 ''user_id'' \<mapsto> param (interview ''userId''),
                 ''job_application_id'' \<mapsto> param (interview ''jobApplicationId''),
                 ''title'' \<mapsto> param (interview ''title''),
                 ''date'' \<mapsto> param (interview ''date''),
                 ''notes'' \<mapsto> param (interview ''notes''),
                 ''completed'' \<mapsto> js_or (interview ''completed'') (JBool False),
                 ''feedback'' \<mapsto> param (interview ''feedback'')]
      in if interviews_ok s row \<and> map_of (tbl_interviews s) i = None
         then (Inr (Interview_of_row row), s1\<lparr>tbl_interviews := tbl_interviews s @ [(i, row)]\<rparr>)
         else (Inl (DatabaseError ''interviews''), s1))"

definition Interview_columns :: "(string \<times> string) list" where
  "Interview_columns =
     [(''title'', ''title''), (''date'', ''date''), (''notes'', ''notes''),
      (''completed'', ''completed''), (''feedback'', ''feedback'')]"

text \<open>
  \<open>updateInterview\<close> adds no assignment of its own: for an update object with none
  of the five fields the statement is \<open>UPDATE interviews SET  WHERE id = $1\<close>, which
  the database rejects.
\<close>

definition Pg_updateInterview ::
  "PostgresStorage \<Rightarrow> int \<Rightarrow> obj \<Rightarrow> (error + obj) \<times> PostgresStorage" where
  "Pg_updateInterview s i update =
     (case map_of (tbl_interviews s) i of
        None \<Rightarrow> (Inl (Error ''Interview not found''), s)
      | Some current \<Rightarrow>
          (let assignments = setFields Interview_columns update;
               row = sql_set current assignments
           in if assignments \<noteq> [] \<and> interviews_ok s row
              then (Inr (Interview_of_row row),
                    s\<lparr>tbl_interviews := AList.update i row (tbl_interviews s)\<rparr>)
              else (Inl (DatabaseError ''interviews''), s)))"

definition Pg_deleteInterview :: "PostgresStorage \<Rightarrow> int \<Rightarrow> PostgresStorage" where
  "Pg_deleteInterview s i = s\<lparr>tbl_interviews := AList.delete i (tbl_interviews s)\<rparr>"

section \<open>The storage interface\<close>

text \<open>
  \<open>IStorage\<close> has the two implementations above; a call through the interface goes
  to the one the server was built with (\<open>export const storage = new PostgresStorage()\<close>
  in the source). A method that may throw returns the exception or its result, and
  the storage after the call.
\<close>

datatype storage = Mem MemStorage | Postgres PostgresStorage

fun Mem_result :: "MemStorage \<Rightarrow> error + obj \<times> MemStorage \<Rightarrow> (error + obj) \<times> storage" where
  "Mem_result s (Inl e) = (Inl e, Mem s)"
| "Mem_result s (Inr (entity, s')) = (Inr entity, Mem s')"

fun Pg_result :: "(error + obj) \<times> PostgresStorage \<Rightarrow> (error + obj) \<times> storage" where
  "Pg_result (r, s') = (r, Postgres s')"


fun createUser :: "storage \<Rightarrow> int \<Rightarrow> obj \<Rightarrow> (error + obj) \<times> storage" where
  "createUser (Mem s) now user = Mem_result s (Inr (Mem_createUser s now user))"
| "createUser (Postgres s) now user = Pg_result (Pg_createUser s now user)"


fun getJobApplicationById :: "storage \<Rightarrow> int \<Rightarrow> obj option" where
  "getJobApplicationById (Mem s) i = Mem_getJobApplicationById s i"
| "getJobApplicationById (Postgres s) i = Pg_getJobApplicationById s i"

fun createJobApplication :: "storage \<Rightarrow> int \<Rightarrow> obj \<Rightarrow> (error + obj) \<times> storage" where
  "createJobApplication (Mem s) now application =
     Mem_result s (Inr (Mem_createJobApplication s now application))"
| "createJobApplication (Postgres s) now application =
     Pg_result (Pg_createJobApplication s now application)"

fun updateJobApplication :: "storage \<Rightarrow> int \<Rightarrow> int \<Rightarrow> obj \<Rightarrow> (error + obj) \<times> storage" where
  "updateJobApplication (Mem s) now i update =
     Mem_result s (Mem_updateJobApplication s now i update)"
| "updateJobApplication (Postgres s) now i update =
     Pg_result (Pg_updateJobApplication s now i update)"

fun deleteJobApplication :: "storage \<Rightarrow> int \<Rightarrow> storage" where
  "deleteJobApplication (Mem s) i = Mem (Mem_deleteJobApplication s i)"
| "deleteJobApplication (Postgres s) i = Postgres (Pg_deleteJobApplication s i)"


fun getDocumentById :: "storage \<Rightarrow> int \<Rightarrow> obj option" where
  "getDocumentById (Mem s) i = Mem_getDocumentById s i"
| "getDocumentById (Postgres s) i = Pg_getDocumentById s i"

fun createDocument :: "storage \<Rightarrow> int \<Rightarrow> obj \<Rightarrow> (error + obj) \<times> storage" where
  "createDocument (Mem s) now document = Mem_result s (Inr (Mem_createDocument s now document))"
| "createDocument (Postgres s) now document = Pg_result (Pg_createDocument s now document)"

fun updateDocument :: "storage \<Rightarrow> int \<Rightarrow> int \<Rightarrow> obj \<Rightarrow> (error + obj) \<times> storage" where
  "updateDocument (Mem s) now i update = Mem_result s (Mem_updateDocument s now i update)"
| "updateDocument (Postgres s) now i update = Pg_result (Pg_updateDocument s now i update)"

fun deleteDocument :: "storage \<Rightarrow> int \<Rightarrow> storage" where
  "deleteDocument (Mem s) i = Mem (Mem_deleteDocument s i)"
| "deleteDocument (Postgres s) i = Postgres (Pg_deleteDocument s i)"



fun createInterview :: "storage \<Rightarrow> obj \<Rightarrow> (error + obj) \<times> storage" where
  "createInterview (Mem s) interview = Mem_result s (Inr (Mem_createInterview s interview))"
| "createInterview (Postgres s) interview = Pg_result (Pg_createInterview s interview)"

fun updateInterview :: "storage \<Rightarrow> int \<Rightarrow> obj \<Rightarrow> (error + obj) \<times> storage" where
  "updateInterview (Mem s) i update = Mem_result s (Mem_updateInterview s i update)"
| "updateInterview (Postgres s) i update = Pg_result (Pg_updateInterview s i update)"

fun deleteInterview :: "storage \<Rightarrow> int \<Rightarrow> storage" where
  "deleteInterview (Mem s) i = Mem (Mem_deleteInterview s i)"
| "deleteInterview (Postgres s) i = Postgres (Pg_deleteInterview s i)"

section \<open>Numbers\<close>

text \<open>
  The statistics route divides and multiplies JavaScript numbers, which are IEEE 754
  doubles: every operation returns the double nearest to its exact result, ties to
  the even significand. A finite double is \<open>Double m e\<close>, the number \<open>m * 2 ^ e\<close>,
  with a significand of at most 53 bits. The model rounds to 53 bits whatever the
  exponent: it is the arithmetic of doubles for results between \<open>2 ^ - 1022\<close> and
  \<open>2 ^ 1024\<close> in size (and for \<open>0\<close>), which every number of the route is. A division
  by \<open>0\<close> is outside it; the route divides by a positive count and by a constant.
\<close>

datatype double = Double int int

definition pow2 :: "int \<Rightarrow> rat" where
  "pow2 e = (if 0 \<le> e then 2 ^ nat e else 1 / 2 ^ nat (- e))"

fun double_val :: "double \<Rightarrow> rat" where
  "double_val (Double m e) = of_int m * pow2 e"















section \<open>The insert schemas\<close>

text \<open>
  \<open>createInsertSchema\<close> derives a schema from a table declaration: a key for each
  column, checked against the column's type (\<open>text\<close> a string, \<open>integer\<close> a number,
  \<open>boolean\<close> a boolean, \<open>timestamp\<close> a \<open>Date\<close>). A column declared \<open>notNull\<close>
  without a default is required; one with a default may be absent; one not declared
  \<open>notNull\<close> may be absent or \<open>null\<close>. \<open>omit\<close> drops keys. \<open>parse\<close> returns the
  checked keys only (a key the schema does not have is stripped) and adds no
  default; \<open>None\<close> is the \<open>ZodError\<close> it throws.
\<close>

datatype ztype = ZString | ZNumber | ZBoolean | ZDate

fun zaccepts :: "ztype \<Rightarrow> jsval \<Rightarrow> bool" where
  "zaccepts ZString (JStr s) = True"
| "zaccepts ZNumber (JNum n) = True"
| "zaccepts ZBoolean (JBool b) = True"
| "zaccepts ZDate (JDate t) = True"
| "zaccepts t v = False"






section \<open>The routes\<close>

text \<open>
  A handler gets the storage, the user of the session (\<open>req.user\<close>, \<open>None\<close> without a
  login), the time, and what the request carries: the id of the path, parsed, and
  the JSON body, an object. It returns the response and the storage afterwards. The
  body of a \<open>400\<close> response is the message of the schema violation, whose text is not
  modelled.
\<close>






subsection \<open>Job applications\<close>





subsection \<open>Documents\<close>





subsection \<open>Interviews\<close>





subsection \<open>Dashboard stats\<close>



section \<open>Sequences of operations\<close>

text \<open>
  The calls that change a storage, each with the time at which it is made, and what a
  sequence of them does: the storage afterwards, and the entities the successful
  creates returned, in order, each with its kind.
\<close>

datatype kind = User | JobApplication | Document | Interview

datatype operation =
    CreateUser obj
  | CreateJobApplication obj
  | UpdateJobApplication int obj
  | DeleteJobApplication int
  | CreateDocument obj
  | UpdateDocument int obj
  | DeleteDocument int
  | CreateInterview obj
  | UpdateInterview int obj
  | DeleteInterview int

fun created :: "kind \<Rightarrow> (error + obj) \<times> storage \<Rightarrow> (kind \<times> obj) list \<times> storage" where
  "created k (Inl e, st) = ([], st)"
| "created k (Inr entity, st) = ([(k, entity)], st)"

fun perform :: "storage \<Rightarrow> int \<Rightarrow> operation \<Rightarrow> (kind \<times> obj) list \<times> storage" where
  "perform st now (CreateUser p) = created User (createUser st now p)"
| "perform st now (CreateJobApplication p) = created JobApplication (createJobApplication st now p)"
| "perform st now (UpdateJobApplication i u) = ([], snd (updateJobApplication st now i u))"
| "perform st now (DeleteJobApplication i) = ([], deleteJobApplication st i)"
| "perform st now (CreateDocument p) = created Document (createDocument st now p)"
| "perform st now (UpdateDocument i u) = ([], snd (updateDocument st now i u))"
| "perform st now (DeleteDocument i) = ([], deleteDocument st i)"
| "perform st now (CreateInterview p) = created Interview (createInterview st p)"
| "perform st now (UpdateInterview i u) = ([], snd (updateInterview st i u))"
| "perform st now (DeleteInterview i) = ([], deleteInterview st i)"

fun run :: "storage \<Rightarrow> (int \<times> operation) list \<Rightarrow> (kind \<times> obj) list \<times> storage" where
  "run st [] = ([], st)"
| "run st ((now, operation) # rest) =
     (case perform st now operation of
        (es, st') \<Rightarrow> (case run st' rest of (es', st'') \<Rightarrow> (es @ es', st'')))"

text \<open>The \<open>id\<close> fields of the created entities of one kind, in the order of their creation.\<close>

definition identifiers :: "kind \<Rightarrow> (kind \<times> obj) list \<Rightarrow> jsval option list" where
  "identifiers k es = map (\<lambda>(k', entity). entity ''id'') (filter (\<lambda>(k', entity). k' = k) es)"

text \<open>The counter of a kind: the field \<open>this.userId\<close> and its like, or the sequence of the table.\<close>

fun next_id :: "kind \<Rightarrow> storage \<Rightarrow> int" where
  "next_id User (Mem s) = userId s"
| "next_id JobApplication (Mem s) = jobApplicationId s"
| "next_id Document (Mem s) = documentId s"
| "next_id Interview (Mem s) = interviewId s"
| "next_id User (Postgres s) = users_id_seq s"
| "next_id JobApplication (Postgres s) = job_applications_id_seq s"
| "next_id Document (Postgres s) = documents_id_seq s"
| "next_id Interview (Postgres s) = interviews_id_seq s"

text \<open>
  A database whose rows satisfy the constraints of their tables, and whose keys have
  all been drawn from the sequences. \<open>initTables\<close> leaves such a database and every
  method keeps it so (\<open>consistent_run\<close>). \<open>MemStorage\<close> declares no constraint.
\<close>

definition Pg_consistent :: "PostgresStorage \<Rightarrow> bool" where
  "Pg_consistent s \<longleftrightarrow>
     list_all (\<lambda>(k, row). k < users_id_seq s) (tbl_users s) \<and>
     list_all (\<lambda>(k, row). k < job_applications_id_seq s \<and> job_applications_ok s row)
       (tbl_job_applications s) \<and>
     list_all (\<lambda>(k, row). k < documents_id_seq s \<and> documents_ok s row) (tbl_documents s) \<and>
     list_all (\<lambda>(k, row). k < interviews_id_seq s \<and> interviews_ok s row) (tbl_interviews s)"

fun consistent :: "storage \<Rightarrow> bool" where
  "consistent (Mem s) = True"
| "consistent (Postgres s) = Pg_consistent s"

section \<open>Example data\<close>

text \<open>
  A registered user, her first application as \<open>POST /api/applications\<close> hands it to
  the storage, and each storage after the two calls, at the times 1000 and 2000.
\<close>

definition ann :: obj where
  "ann = [''username'' \<mapsto> JStr ''ann'', ''password'' \<mapsto> JStr ''5e884898'']"

definition acme :: obj where
  "acme = [''userId'' \<mapsto> JNum 1, ''company'' \<mapsto> JStr ''Acme'',
           ''position'' \<mapsto> JStr ''Engineer'']"

definition mem0 :: MemStorage where
  "mem0 = snd (Mem_createJobApplication (snd (Mem_createUser Mem_constructor 1000 ann)) 2000 acme)"

definition pg_ann :: PostgresStorage where
  "pg_ann = snd (Pg_createUser initTables 1000 ann)"

definition pg0 :: PostgresStorage where
  "pg0 = snd (Pg_createJobApplication pg_ann 2000 acme)"

definition mem_acme :: storage where
  "mem_acme = Mem mem0"

definition pg_acme :: storage where
  "pg_acme = Postgres pg0"



section \<open>The statistics in the words of the specification\<close>



section \<open>Evaluation\<close>

lemmas Mem_defs = Mem_constructor_def Mem_getUser_def Mem_createUser_def
  Mem_getJobApplicationsByUserId_def Mem_getJobApplicationById_def Mem_createJobApplication_def
  Mem_updateJobApplication_def Mem_deleteJobApplication_def
  Mem_getDocumentsByUserId_def Mem_getDocumentById_def Mem_createDocument_def
  Mem_updateDocument_def Mem_deleteDocument_def
  Mem_getInterviewsByUserId_def Mem_getInterviewById_def Mem_createInterview_def
  Mem_updateInterview_def Mem_deleteInterview_def

lemmas Pg_defs = initTables_def col_def sql_set_def
  User_of_row_def Pg_getUser_def users_ok_def Pg_createUser_def
  JobApplication_of_row_def JobApplication_of_row_listed_def Pg_getJobApplicationsByUserId_def
  Pg_getJobApplicationById_def job_applications_ok_def Pg_createJobApplication_def
  JobApplication_columns_def Pg_updateJobApplication_def Pg_deleteJobApplication_def
  Document_of_row_def Pg_getDocumentsByUserId_def Pg_getDocumentById_def documents_ok_def
  Pg_createDocument_def Document_columns_def Pg_updateDocument_def Pg_deleteDocument_def
  Interview_of_row_def Pg_getInterviewsByUserId_def Pg_getInterviewById_def interviews_ok_def
  Pg_createInterview_def Interview_columns_def Pg_updateInterview_def Pg_deleteInterview_def

lemmas example_defs = ann_def acme_def mem0_def pg_ann_def pg0_def mem_acme_def pg_acme_def

section \<open>Deleting\<close>


lemma map_of_delete_same: "map_of (AList.delete k al) k = None"
  by (simp add: AList.delete_conv')













section \<open>Missing before forbidden\<close>











section \<open>What an update copies\<close>

lemma map_of_update_same: "map_of (AList.update k v al) k = Some v"
  by (simp add: AList.update_conv')









section \<open>The time of the last change\<close>

lemma setFields_other_column:
  "c \<notin> snd ` set cols \<Longrightarrow> map_of (setFields cols u) c = None"
  by (induction cols u rule: setFields.induct) (auto split: option.splits)

lemma map_of_append_last:
  "map_of xs c = None \<Longrightarrow> map_of (xs @ [(c, v)]) c = Some v"
  by (simp add: map_of_append map_add_def)

lemma map_of_append_new:
  "map_of (al @ [(k, v)]) k' = (if map_of al k' = None \<and> k' = k then Some v else map_of al k')"
  by (auto simp add: map_of_append map_add_def split: option.splits)

lemma sql_set_updated_at:
  "''updated_at'' \<notin> snd ` set cols \<Longrightarrow>
   col (sql_set current (setFields cols u @ [(''updated_at'', JDate now)])) ''updated_at'' =
     JDate now"
  by (simp add: col_def sql_set_def map_add_def map_of_append_last setFields_other_column)

lemma Pg_JobApplication_updated_at:
  "col (sql_set current (setFields JobApplication_columns u @ [(''updated_at'', JDate now)]))
     ''updated_at'' = JDate now"
  by (rule sql_set_updated_at) (simp add: JobApplication_columns_def)

lemma Pg_Document_updated_at:
  "col (sql_set current (setFields Document_columns u @ [(''updated_at'', JDate now)]))
     ''updated_at'' = JDate now"
  by (rule sql_set_updated_at) (simp add: Document_columns_def)

lemma map_of_insert_row:
  "map_of tbl i = None \<Longrightarrow> map_of (tbl @ [(i, row)]) i = Some row"
  by (simp add: map_of_append map_add_def)

lemma Pg_createJobApplication_Inr:
  assumes "Pg_createJobApplication s now p = (Inr r, s')"
  shows "\<exists>row. r = JobApplication_of_row row \<and>
           map_of (tbl_job_applications s') (job_applications_id_seq s) = Some row \<and>
           row ''id'' = Some (JNum (job_applications_id_seq s)) \<and>
           row ''status'' = Some (js_or (p ''status'') (JStr ''applied'')) \<and>
           row ''notes'' = Some JNull \<and>
           row ''updated_at'' = Some (JDate now) \<and>
           job_applications_id_seq s' = job_applications_id_seq s + 1"
  using assms unfolding Pg_createJobApplication_def Let_def
  by (auto simp add: map_add_def split: if_splits)

lemma Pg_createDocument_Inr:
  assumes "Pg_createDocument s now p = (Inr r, s')"
  shows "\<exists>row. r = Document_of_row row \<and>
           map_of (tbl_documents s') (documents_id_seq s) = Some row \<and>
           row ''id'' = Some (JNum (documents_id_seq s)) \<and>
           row ''updated_at'' = Some (JDate now) \<and>
           documents_id_seq s' = documents_id_seq s + 1"
  using assms unfolding Pg_createDocument_def Let_def
  by (auto simp add: map_add_def split: if_splits)

lemma createJobApplication_updatedAt:
  assumes "createJobApplication st now p = (Inr r, st')"
  shows "r ''updatedAt'' = Some (JDate now) \<and>
    (\<exists>i e. r ''id'' = Some (JNum i) \<and> getJobApplicationById st' i = Some e \<and>
       e ''updatedAt'' = Some (JDate now))"
proof (cases st)
  case (Mem s)
  with assms show ?thesis
    by (auto simp add: Mem_createJobApplication_def Mem_getJobApplicationById_def Let_def
        map_of_update_same)
next
  case (Postgres s)
  with assms obtain s' where s': "Pg_createJobApplication s now p = (Inr r, s')" "st' = Postgres s'"
    by (cases "Pg_createJobApplication s now p") auto
  from Pg_createJobApplication_Inr [OF s'(1)] s'(2) show ?thesis
    by (auto simp add: Pg_getJobApplicationById_def JobApplication_of_row_def col_def)
qed

lemma updateJobApplication_updatedAt:
  assumes "updateJobApplication st now i u = (Inr r, st')"
  shows "r ''updatedAt'' = Some (JDate now) \<and>
    (\<exists>e. getJobApplicationById st' i = Some e \<and> e ''updatedAt'' = Some (JDate now))"
proof (cases st)
  case (Mem s)
  with assms show ?thesis
    by (auto simp add: Mem_updateJobApplication_def Mem_getJobApplicationById_def Let_def
        map_of_update_same split: option.splits)
next
  case (Postgres s)
  with assms show ?thesis
    by (auto simp add: Pg_updateJobApplication_def Pg_getJobApplicationById_def Let_def
        JobApplication_of_row_def Pg_JobApplication_updated_at map_of_update_same
        split: option.splits if_splits)
qed

lemma createDocument_updatedAt:
  assumes "createDocument st now p = (Inr r, st')"
  shows "r ''updatedAt'' = Some (JDate now) \<and>
    (\<exists>i e. r ''id'' = Some (JNum i) \<and> getDocumentById st' i = Some e \<and>
       e ''updatedAt'' = Some (JDate now))"
proof (cases st)
  case (Mem s)
  with assms show ?thesis
    by (auto simp add: Mem_createDocument_def Mem_getDocumentById_def Let_def
        map_of_update_same)
next
  case (Postgres s)
  with assms obtain s' where s': "Pg_createDocument s now p = (Inr r, s')" "st' = Postgres s'"
    by (cases "Pg_createDocument s now p") auto
  from Pg_createDocument_Inr [OF s'(1)] s'(2) show ?thesis
    by (auto simp add: Pg_getDocumentById_def Document_of_row_def col_def)
qed

lemma updateDocument_updatedAt:
  assumes "updateDocument st now i u = (Inr r, st')"
  shows "r ''updatedAt'' = Some (JDate now) \<and>
    (\<exists>e. getDocumentById st' i = Some e \<and> e ''updatedAt'' = Some (JDate now))"
proof (cases st)
  case (Mem s)
  with assms show ?thesis
    by (auto simp add: Mem_updateDocument_def Mem_getDocumentById_def Let_def
        map_of_update_same split: option.splits)
next
  case (Postgres s)
  with assms show ?thesis
    by (auto simp add: Pg_updateDocument_def Pg_getDocumentById_def Let_def
        Document_of_row_def Pg_Document_updated_at map_of_update_same
        split: option.splits if_splits)
qed

text \<open>
  Claim C3. Through the storage interface, with either implementation: when
  creating or updating a job application or a document succeeds at the time \<open>now\<close>,
  the record returned and the record stored under its id have \<open>updatedAt = now\<close>,
  whatever the payload holds, an \<open>updatedAt\<close> of its own included. So an update at a
  time not before the record's \<open>updatedAt\<close> leaves a stored \<open>updatedAt\<close> that is not
  before the old one.
\<close>

theorem updatedAt_is_the_time_of_the_operation:
  "(createJobApplication st now p = (Inr r, st') \<longrightarrow>
      r ''updatedAt'' = Some (JDate now) \<and>
      (\<exists>i e. r ''id'' = Some (JNum i) \<and> getJobApplicationById st' i = Some e \<and>
         e ''updatedAt'' = Some (JDate now))) \<and>
   (updateJobApplication st now i p = (Inr r, st') \<longrightarrow>
      r ''updatedAt'' = Some (JDate now) \<and>
      (\<exists>e. getJobApplicationById st' i = Some e \<and> e ''updatedAt'' = Some (JDate now))) \<and>
   (createDocument st now p = (Inr r, st') \<longrightarrow>
      r ''updatedAt'' = Some (JDate now) \<and>
      (\<exists>i e. r ''id'' = Some (JNum i) \<and> getDocumentById st' i = Some e \<and>
         e ''updatedAt'' = Some (JDate now))) \<and>
   (updateDocument st now i p = (Inr r, st') \<longrightarrow>
      r ''updatedAt'' = Some (JDate now) \<and>
      (\<exists>e. getDocumentById st' i = Some e \<and> e ''updatedAt'' = Some (JDate now))) \<and>
   (getJobApplicationById st i = Some a \<and> a ''updatedAt'' = Some (JDate t) \<and> t \<le> now \<and>
    updateJobApplication st now i p = (Inr r, st') \<longrightarrow>
      (\<exists>e t'. getJobApplicationById st' i = Some e \<and> e ''updatedAt'' = Some (JDate t') \<and>
         t \<le> t')) \<and>
   (getDocumentById st i = Some a \<and> a ''updatedAt'' = Some (JDate t) \<and> t \<le> now \<and>
    updateDocument st now i p = (Inr r, st') \<longrightarrow>
      (\<exists>e t'. getDocumentById st' i = Some e \<and> e ''updatedAt'' = Some (JDate t') \<and>
         t \<le> t'))"
  using createJobApplication_updatedAt [of st now p r st']
    updateJobApplication_updatedAt [of st now i p r st']
    createDocument_updatedAt [of st now p r st']
    updateDocument_updatedAt [of st now i p r st']
  by blast


lemma pg_create_with_updatedAt:
  "createJobApplication (Postgres pg_ann) 2000 (acme(''updatedAt'' \<mapsto> JDate 5)) =
     (Inr (projr (fst (createJobApplication (Postgres pg_ann) 2000 (acme(''updatedAt'' \<mapsto> JDate 5))))),
      snd (createJobApplication (Postgres pg_ann) 2000 (acme(''updatedAt'' \<mapsto> JDate 5))))"
  by (simp add: example_defs Pg_defs Let_def)

lemma pg_update_with_updatedAt:
  "getJobApplicationById pg_acme 1 = Some (the (getJobApplicationById pg_acme 1)) \<and>
   the (getJobApplicationById pg_acme 1) ''updatedAt'' = Some (JDate 2000) \<and>
   (2000 :: int) \<le> 3000 \<and>
   updateJobApplication pg_acme 3000 1 [''updatedAt'' \<mapsto> JDate 5] =
     (Inr (projr (fst (updateJobApplication pg_acme 3000 1 [''updatedAt'' \<mapsto> JDate 5]))),
      snd (updateJobApplication pg_acme 3000 1 [''updatedAt'' \<mapsto> JDate 5]))"
  by (simp add: example_defs Pg_defs Let_def)

theorem updatedAt_is_the_time_of_the_operation_witness:
  "(createJobApplication (Postgres pg_ann) 2000 (acme(''updatedAt'' \<mapsto> JDate 5)) =
     (Inr (projr (fst (createJobApplication (Postgres pg_ann) 2000 (acme(''updatedAt'' \<mapsto> JDate 5))))),
      snd (createJobApplication (Postgres pg_ann) 2000 (acme(''updatedAt'' \<mapsto> JDate 5))))) \<and>
   (projr (fst (createJobApplication (Postgres pg_ann) 2000 (acme(''updatedAt'' \<mapsto> JDate 5))))
      ''updatedAt'' = Some (JDate 2000) \<and>
    (\<exists>i e. projr (fst (createJobApplication (Postgres pg_ann) 2000
                (acme(''updatedAt'' \<mapsto> JDate 5)))) ''id'' = Some (JNum i) \<and>
       getJobApplicationById
         (snd (createJobApplication (Postgres pg_ann) 2000 (acme(''updatedAt'' \<mapsto> JDate 5)))) i =
         Some e \<and>
       e ''updatedAt'' = Some (JDate 2000))) \<and>
   (getJobApplicationById pg_acme 1 = Some (the (getJobApplicationById pg_acme 1)) \<and>
    the (getJobApplicationById pg_acme 1) ''updatedAt'' = Some (JDate 2000) \<and>
    (2000 :: int) \<le> 3000 \<and>
    updateJobApplication pg_acme 3000 1 [''updatedAt'' \<mapsto> JDate 5] =
      (Inr (projr (fst (updateJobApplication pg_acme 3000 1 [''updatedAt'' \<mapsto> JDate 5]))),
       snd (updateJobApplication pg_acme 3000 1 [''updatedAt'' \<mapsto> JDate 5]))) \<and>
   (\<exists>e t'. getJobApplicationById
              (snd (updateJobApplication pg_acme 3000 1 [''updatedAt'' \<mapsto> JDate 5])) 1 = Some e \<and>
      e ''updatedAt'' = Some (JDate t') \<and> 2000 \<le> t')"
proof -
  note A = updatedAt_is_the_time_of_the_operation
    [of "Postgres pg_ann" 2000 "acme(''updatedAt'' \<mapsto> JDate 5)"
       "projr (fst (createJobApplication (Postgres pg_ann) 2000 (acme(''updatedAt'' \<mapsto> JDate 5))))"
       "snd (createJobApplication (Postgres pg_ann) 2000 (acme(''updatedAt'' \<mapsto> JDate 5)))",
     THEN conjunct1, THEN mp, OF pg_create_with_updatedAt]
  note B = updatedAt_is_the_time_of_the_operation
    [of pg_acme 3000 "[''updatedAt'' \<mapsto> JDate 5]"
       "projr (fst (updateJobApplication pg_acme 3000 1 [''updatedAt'' \<mapsto> JDate 5]))"
       "snd (updateJobApplication pg_acme 3000 1 [''updatedAt'' \<mapsto> JDate 5])" 1
       "the (getJobApplicationById pg_acme 1)" 2000,
     THEN conjunct2, THEN conjunct2, THEN conjunct2, THEN conjunct2, THEN conjunct1, THEN mp,
     OF pg_update_with_updatedAt]
  show ?thesis
    by (rule conjI [OF pg_create_with_updatedAt conjI [OF A conjI [OF pg_update_with_updatedAt B]]])
qed


section \<open>Where the two storages differ\<close>


lemma Pg_createJobApplication_default_status:
  assumes "Pg_createJobApplication s now p = (Inr r, s')" and "p ''status'' = None"
  shows "r ''status'' = Some (JStr ''applied'')"
  using assms unfolding Pg_createJobApplication_def Let_def
  by (auto simp add: JobApplication_of_row_def col_def split: if_splits)

text \<open>
  Claim C7. \<open>MemStorage.deleteJobApplication\<close> removes the application only: after
  creating application 1 and an interview of it, and deleting application 1, the
  interview is still stored and still refers to application 1.
\<close>

theorem Mem_deleteJobApplication_keeps_interviews:
  "(let s1 = snd (Mem_createJobApplication Mem_constructor 2000 acme);
        s2 = snd (Mem_createInterview s1
               [''userId'' \<mapsto> JNum 1, ''jobApplicationId'' \<mapsto> JNum 1,
                ''title'' \<mapsto> JStr ''Phone screen'', ''date'' \<mapsto> JDate 9000]);
        s3 = Mem_deleteJobApplication s2 1
    in Mem_getJobApplicationById s2 1 \<noteq> None \<and>
       Mem_getJobApplicationById s3 1 = None \<and>
       map_option (\<lambda>interview. interview ''jobApplicationId'') (Mem_getInterviewById s3 1) =
         Some (Some (JNum 1)) \<and>
       interviews s3 = interviews s2)"
  by (simp add: example_defs Mem_defs Let_def)

text \<open>
  Claim C4. \<open>PostgresStorage.updateJobApplication\<close> has no assignment for \<open>notes\<close>:
  the update \<open>{notes: "call back"}\<close> of application 1 succeeds, the row's \<open>notes\<close>
  stays \<open>NULL\<close>, the object returned has no \<open>notes\<close>, and the list of the user's
  applications shows \<open>null\<close>. The same update on \<open>MemStorage\<close> stores the note.
\<close>

theorem Pg_updateJobApplication_drops_notes:
  "(case Pg_updateJobApplication pg0 3000 1 [''notes'' \<mapsto> JStr ''call back''] of
      (Inl e, s') \<Rightarrow> False
    | (Inr updated, s') \<Rightarrow>
        updated ''notes'' = None \<and>
        map_option (\<lambda>row. row ''notes'') (map_of (tbl_job_applications s') 1) = Some (Some JNull) \<and>
        map (\<lambda>application. application ''notes'') (Pg_getJobApplicationsByUserId s' 1) =
          [Some JNull]) \<and>
   (case Mem_updateJobApplication mem0 3000 1 [''notes'' \<mapsto> JStr ''call back''] of
      Inl e \<Rightarrow> False
    | Inr (updated, s') \<Rightarrow>
        updated ''notes'' = Some (JStr ''call back'') \<and>
        map (\<lambda>application. application ''notes'') (Mem_getJobApplicationsByUserId s' 1) =
          [Some (JStr ''call back'')])"
  by (simp add: example_defs Mem_defs Pg_defs Let_def)


section \<open>Identifiers\<close>

lemma next_id_update:
  "next_id k (snd (updateJobApplication st now i u)) = next_id k st"
  "next_id k (snd (updateDocument st now i u)) = next_id k st"
  "next_id k (snd (updateInterview st i u)) = next_id k st"
  by (cases st; cases k;
      simp add: Mem_updateJobApplication_def Pg_updateJobApplication_def
        Mem_updateDocument_def Pg_updateDocument_def
        Mem_updateInterview_def Pg_updateInterview_def Let_def split: option.splits)+

lemma next_id_delete:
  "next_id k (deleteJobApplication st i) = next_id k st"
  "next_id k (deleteDocument st i) = next_id k st"
  "next_id k (deleteInterview st i) = next_id k st"
  by (cases st; cases k;
      simp add: Mem_deleteJobApplication_def Pg_deleteJobApplication_def
        Mem_deleteDocument_def Pg_deleteDocument_def
        Mem_deleteInterview_def Pg_deleteInterview_def)+

lemma next_id_createUser:
  "next_id k (snd (createUser st now p)) = (if k = User then next_id k st + 1 else next_id k st)"
  "fst (createUser st now p) = Inr e \<Longrightarrow> e ''id'' = Some (JNum (next_id User st))"
  by (cases st; cases k;
      auto simp add: Mem_createUser_def Pg_createUser_def User_of_row_def col_def Let_def
        split: if_splits)+

lemma next_id_createJobApplication:
  "next_id k (snd (createJobApplication st now p)) =
     (if k = JobApplication then next_id k st + 1 else next_id k st)"
  "fst (createJobApplication st now p) = Inr e \<Longrightarrow>
     e ''id'' = Some (JNum (next_id JobApplication st))"
  by (cases st; cases k;
      auto simp add: Mem_createJobApplication_def Pg_createJobApplication_def
        JobApplication_of_row_def col_def Let_def split: if_splits)+

lemma next_id_createDocument:
  "next_id k (snd (createDocument st now p)) =
     (if k = Document then next_id k st + 1 else next_id k st)"
  "fst (createDocument st now p) = Inr e \<Longrightarrow> e ''id'' = Some (JNum (next_id Document st))"
  by (cases st; cases k;
      auto simp add: Mem_createDocument_def Pg_createDocument_def
        Document_of_row_def col_def Let_def split: if_splits)+

lemma next_id_createInterview:
  "next_id k (snd (createInterview st p)) =
     (if k = Interview then next_id k st + 1 else next_id k st)"
  "fst (createInterview st p) = Inr e \<Longrightarrow> e ''id'' = Some (JNum (next_id Interview st))"
  by (cases st; cases k;
      auto simp add: Mem_createInterview_def Pg_createInterview_def
        Interview_of_row_def col_def Let_def split: if_splits)+

lemma created_cases:
  "created k' x = (case fst x of Inl e \<Rightarrow> [] | Inr entity \<Rightarrow> [(k', entity)], snd x)"
  by (cases x; cases "fst x") auto

lemma perform_step:
  assumes "perform st now operation = (es, st')"
  shows "(identifiers k es = [] \<and> next_id k st \<le> next_id k st') \<or>
         (identifiers k es = [Some (JNum (next_id k st))] \<and> next_id k st' = next_id k st + 1)"
  using assms
  by (cases operation)
     (auto simp add: identifiers_def created_cases next_id_update next_id_delete
        next_id_createUser next_id_createJobApplication next_id_createDocument
        next_id_createInterview split: sum.splits)

lemma identifiers_append: "identifiers k (es @ es') = identifiers k es @ identifiers k es'"
  by (simp add: identifiers_def)

lemma run_identifiers:
  "\<exists>ns. identifiers k (fst (run st ops)) = map (\<lambda>n. Some (JNum n)) ns \<and>
        sorted_wrt (<) ns \<and> (\<forall>n \<in> set ns. next_id k st \<le> n)"
proof (induction ops arbitrary: st)
  case Nil
  show ?case by (simp add: identifiers_def)
next
  case (Cons x ops)
  obtain now operation where x: "x = (now, operation)" by (cases x)
  obtain es st' where p: "perform st now operation = (es, st')"
    by (cases "perform st now operation")
  from Cons.IH [of st'] obtain ns where ns:
    "identifiers k (fst (run st' ops)) = map (\<lambda>n. Some (JNum n)) ns"
    "sorted_wrt (<) ns" "\<forall>n \<in> set ns. next_id k st' \<le> n"
    by blast
  have r: "identifiers k (fst (run st (x # ops))) =
           identifiers k es @ identifiers k (fst (run st' ops))"
    by (simp add: x p identifiers_append split: prod.splits)
  from perform_step [OF p, of k] show ?case
  proof
    assume "identifiers k es = [] \<and> next_id k st \<le> next_id k st'"
    with ns r show ?thesis by (intro exI [of _ ns]) auto
  next
    assume "identifiers k es = [Some (JNum (next_id k st))] \<and> next_id k st' = next_id k st + 1"
    with ns r show ?thesis by (intro exI [of _ "next_id k st # ns"]) auto
  qed
qed

lemma sorted_wrt_less_distinct: "sorted_wrt (<) (ns :: int list) \<Longrightarrow> distinct ns"
  by (induction ns) auto

text \<open>
  Claim C8. For every kind of entity, either storage in any state, and every sequence
  of creates, updates and deletes of any kinds: the identifiers that the successful
  creates of that kind assign are numbers, strictly increasing in the order of the
  creates, hence distinct. A delete between two creates changes nothing of this, so
  no identifier is assigned twice.
\<close>

theorem identifiers_strictly_increasing:
  "\<exists>ns. identifiers k (fst (run st ops)) = map (\<lambda>n. Some (JNum n)) ns \<and>
        sorted_wrt (<) ns \<and> distinct ns"
proof -
  from run_identifiers [of k st ops] obtain ns where
    "identifiers k (fst (run st ops)) = map (\<lambda>n. Some (JNum n)) ns" "sorted_wrt (<) ns"
    by blast
  moreover from this(2) have "distinct ns" by (rule sorted_wrt_less_distinct)
  ultimately show ?thesis by blast
qed

section \<open>Consistency of the database\<close>

lemma set_update_subset: "set (AList.update k v al) \<subseteq> insert (k, v) (set al)"
  by (induction al) auto

lemma set_delete_subset: "set (AList.delete k al) \<subseteq> set al"
  by (induction al) auto

lemma in_set_update: "x \<in> set (AList.update k v al) \<Longrightarrow> x = (k, v) \<or> x \<in> set al"
  using set_update_subset [of k v al] by auto

lemma in_set_delete: "x \<in> set (AList.delete k al) \<Longrightarrow> x \<in> set al \<and> fst x \<noteq> k"
  by (induction al) (auto split: if_splits)


lemma references_append:
  "references t v \<Longrightarrow> references (t @ [(i, row)]) v"
  by (cases v) (auto simp add: map_add_def split: option.splits)

lemma references_update:
  "references t v \<Longrightarrow> references (AList.update i row t) v"
  by (cases v) (auto simp add: AList.update_conv')

lemma references_delete:
  "references t v \<Longrightarrow> v \<noteq> JNum i \<Longrightarrow> references (AList.delete i t) v"
  by (cases v) (auto simp add: AList.delete_conv')

lemma Pg_consistent_iff:
  "Pg_consistent s \<longleftrightarrow>
     (\<forall>x \<in> set (tbl_users s). fst x < users_id_seq s) \<and>
     (\<forall>x \<in> set (tbl_job_applications s).
        fst x < job_applications_id_seq s \<and> job_applications_ok s (snd x)) \<and>
     (\<forall>x \<in> set (tbl_documents s). fst x < documents_id_seq s \<and> documents_ok s (snd x)) \<and>
     (\<forall>x \<in> set (tbl_interviews s). fst x < interviews_id_seq s \<and> interviews_ok s (snd x))"
  by (simp add: Pg_consistent_def list_all_iff case_prod_unfold)

lemmas ok_defs = job_applications_ok_def documents_ok_def interviews_ok_def

lemma Pg_consistent_initTables: "Pg_consistent initTables"
  by (simp add: Pg_consistent_iff initTables_def)

lemma Pg_consistent_createUser:
  assumes "Pg_consistent s"
  shows "Pg_consistent (snd (Pg_createUser s now p))"
  using assms unfolding Pg_consistent_iff Pg_createUser_def Let_def
  by (auto simp add: ok_defs references_append)

lemma Pg_consistent_createJobApplication:
  assumes "Pg_consistent s"
  shows "Pg_consistent (snd (Pg_createJobApplication s now p))"
  using assms unfolding Pg_consistent_iff Pg_createJobApplication_def Let_def
  by (auto simp add: ok_defs references_append)

lemma Pg_updateJobApplication_state:
  "snd (Pg_updateJobApplication s now i u) = s \<or>
   (\<exists>row current. job_applications_ok s row \<and> (i, current) \<in> set (tbl_job_applications s) \<and>
      snd (Pg_updateJobApplication s now i u) =
        s\<lparr>tbl_job_applications := AList.update i row (tbl_job_applications s)\<rparr>)"
  by (auto simp add: Pg_updateJobApplication_def Let_def dest: map_of_SomeD split: option.splits)

lemma Pg_consistent_updateJobApplication:
  assumes "Pg_consistent s"
  shows "Pg_consistent (snd (Pg_updateJobApplication s now i u))"
  using Pg_updateJobApplication_state [of s now i u] assms
  by (fastforce simp add: Pg_consistent_iff ok_defs references_update dest!: in_set_update)

lemma Pg_consistent_deleteJobApplication:
  assumes "Pg_consistent s"
  shows "Pg_consistent (Pg_deleteJobApplication s i)"
  using assms unfolding Pg_consistent_iff Pg_deleteJobApplication_def
  by (auto simp add: ok_defs references_delete dest!: in_set_delete)

lemma Pg_consistent_createDocument:
  assumes "Pg_consistent s"
  shows "Pg_consistent (snd (Pg_createDocument s now p))"
  using assms unfolding Pg_consistent_iff Pg_createDocument_def Let_def
  by (auto simp add: ok_defs)

lemma Pg_updateDocument_state:
  "snd (Pg_updateDocument s now i u) = s \<or>
   (\<exists>row current. documents_ok s row \<and> (i, current) \<in> set (tbl_documents s) \<and>
      snd (Pg_updateDocument s now i u) =
        s\<lparr>tbl_documents := AList.update i row (tbl_documents s)\<rparr>)"
  by (auto simp add: Pg_updateDocument_def Let_def dest: map_of_SomeD split: option.splits)

lemma Pg_consistent_updateDocument:
  assumes "Pg_consistent s"
  shows "Pg_consistent (snd (Pg_updateDocument s now i u))"
  using Pg_updateDocument_state [of s now i u] assms
  by (fastforce simp add: Pg_consistent_iff ok_defs dest!: in_set_update)

lemma Pg_consistent_deleteDocument:
  assumes "Pg_consistent s"
  shows "Pg_consistent (Pg_deleteDocument s i)"
  using assms unfolding Pg_consistent_iff Pg_deleteDocument_def
  by (auto simp add: ok_defs dest!: in_set_delete)

lemma Pg_consistent_createInterview:
  assumes "Pg_consistent s"
  shows "Pg_consistent (snd (Pg_createInterview s p))"
  using assms unfolding Pg_consistent_iff Pg_createInterview_def Let_def
  by (auto simp add: ok_defs)

lemma Pg_updateInterview_state:
  "snd (Pg_updateInterview s i u) = s \<or>
   (\<exists>row current. interviews_ok s row \<and> (i, current) \<in> set (tbl_interviews s) \<and>
      snd (Pg_updateInterview s i u) =
        s\<lparr>tbl_interviews := AList.update i row (tbl_interviews s)\<rparr>)"
  by (auto simp add: Pg_updateInterview_def Let_def dest: map_of_SomeD split: option.splits)

lemma Pg_consistent_updateInterview:
  assumes "Pg_consistent s"
  shows "Pg_consistent (snd (Pg_updateInterview s i u))"
  using Pg_updateInterview_state [of s i u] assms
  by (fastforce simp add: Pg_consistent_iff ok_defs dest!: in_set_update)

lemma Pg_consistent_deleteInterview:
  assumes "Pg_consistent s"
  shows "Pg_consistent (Pg_deleteInterview s i)"
  using assms unfolding Pg_consistent_iff Pg_deleteInterview_def
  by (auto simp add: ok_defs dest!: in_set_delete)

lemma snd_Pg_result: "snd (Pg_result x) = Postgres (snd x)"
  by (cases x) simp

lemma fst_Pg_result: "fst (Pg_result x) = fst x"
  by (cases x) simp

lemma consistent_Mem_result: "consistent (snd (Mem_result s r))"
  by (cases r) auto

lemma consistent_perform:
  "consistent st \<Longrightarrow> consistent (snd (perform st now operation))"
  by (cases st; cases operation)
     (simp_all add: created_cases snd_Pg_result consistent_Mem_result
        Pg_consistent_createUser Pg_consistent_createJobApplication
        Pg_consistent_updateJobApplication Pg_consistent_deleteJobApplication
        Pg_consistent_createDocument Pg_consistent_updateDocument Pg_consistent_deleteDocument
        Pg_consistent_createInterview Pg_consistent_updateInterview
        Pg_consistent_deleteInterview)

lemma consistent_run:
  "consistent st \<Longrightarrow> consistent (snd (run st ops))"
proof (induction ops arbitrary: st)
  case Nil
  then show ?case by simp
next
  case (Cons x ops)
  obtain now operation where x: "x = (now, operation)" by (cases x)
  from Cons.prems have "consistent (snd (perform st now operation))"
    by (rule consistent_perform)
  from Cons.IH [OF this] show ?case
    by (simp add: x case_prod_unfold)
qed

text \<open>Referential integrity of interviews in every reachable database.\<close>

lemma Pg_interviews_reference_applications:
  assumes "Pg_consistent s" and "map_of (tbl_interviews s) k = Some row"
  shows "references (tbl_job_applications s) (col row ''job_application_id'')"
  using assms by (auto simp add: Pg_consistent_iff interviews_ok_def dest!: map_of_SomeD)

lemma Pg_deleteJobApplication_cascades:
  assumes "Pg_consistent s"
    and "map_of (tbl_interviews (Pg_deleteJobApplication s i)) k = Some row"
  shows "col row ''job_application_id'' \<noteq> JNum i"
proof
  assume r: "col row ''job_application_id'' = JNum i"
  have c: "Pg_consistent (Pg_deleteJobApplication s i)"
    using assms(1) by (rule Pg_consistent_deleteJobApplication)
  from Pg_interviews_reference_applications [OF c assms(2)] r
  have "map_of (tbl_job_applications (Pg_deleteJobApplication s i)) i \<noteq> None" by simp
  then show False
    by (simp add: Pg_deleteJobApplication_def map_of_delete_same split: if_splits)
qed


section \<open>The status of an application\<close>





lemma zaccepts_ZNumber: "zaccepts ZNumber v \<longleftrightarrow> (\<exists>n. v = JNum n)"
  by (cases v) auto



















section \<open>Rounding to doubles\<close>



lemma pow2_nonzero [simp]: "pow2 e \<noteq> 0"
  by (simp add: pow2_def)

lemma pow2_nonneg [simp]: "0 \<le> pow2 e"
  by (simp add: pow2_def)



lemma pow2_nat: "0 \<le> e \<Longrightarrow> pow2 e = 2 ^ nat e"
  by (simp add: pow2_def)


lemma pow2_0 [simp]: "pow2 0 = 1"
  by (simp add: pow2_def)



















lemma double_val_zero: "double_val (Double m e) = 0 \<longleftrightarrow> m = 0"
  by simp















section \<open>The statistics\<close>


















end
